theory Spec2Isabelle
  imports Complex_Main "HOL-Library.Sublist" "HOL-Library.Multiset" "HOL-Library.AList"
    "HOL-Library.DAList"
begin


section \<open>JavaScript values\<close>

text \<open>
  The extractor keeps everything it reads from an object literal in untyped (\<open>any\<close>)
  variables, so the fields of a parameter hold whatever \<open>extractValueFromNode\<close>
  produced: a string, a number (always the result of \<open>parseInt\<close>, hence an integer or
  \<open>NaN\<close>), a boolean, an array, an object, or \<open>undefined\<close>. An object is the list of
  its own enumerable properties in enumeration order; strings are byte strings.
\<close>

datatype jsval =
    JUndefined
  | JBool bool
  | JNum int
  | JNaN
  | JStr string
  | JArr "jsval list"
  | JObj "(string \<times> jsval) list"

text \<open>JavaScript truthiness, as tested by \<open>if (v)\<close>, \<open>a && b\<close>, \<open>a || b\<close>.\<close>

fun truthy :: "jsval \<Rightarrow> bool" where
  "truthy JUndefined = False"
| "truthy (JBool b) = b"
| "truthy (JNum n) = (n \<noteq> 0)"
| "truthy JNaN = False"
| "truthy (JStr s) = (s \<noteq> [])"
| "truthy (JArr xs) = True"
| "truthy (JObj kvs) = True"

definition js_or :: "jsval \<Rightarrow> jsval \<Rightarrow> jsval" where
  "js_or a b = (if truthy a then a else b)"

section \<open>Data model\<close>

datatype quality = High | Medium | Low

record ExtractedParameterSchema =
  p_name :: jsval
  p_displayName :: jsval
  p_type :: jsval
  p_default :: jsval
  p_description :: jsval
  p_required :: jsval
  p_placeholder :: jsval
  p_hint :: jsval
  p_options :: jsval
  p_displayOptions :: jsval
  p_typeOptions :: jsval
  p_routing :: jsval
  p_modes :: jsval
  p_extractValue :: jsval
  p_nested :: jsval
  p_exampleValue :: jsval
  p_workflowJsonStructure :: jsval

record ExtractedNodeSchema =
  s_displayName :: jsval
  s_name :: jsval
  s_description :: jsval
  s_group :: jsval
  s_version :: jsval
  s_icon :: jsval
  s_parameters :: "ExtractedParameterSchema list"
  s_credentials :: jsval
  s_webhookId :: jsval
  s_polling :: jsval
  s_supportsCORS :: jsval
  s_extractionQuality :: quality
  s_extractionNotes :: "string list"

text \<open>
  A JavaScript number that results from a division: a finite value, or one of the
  two non-finite results a division by zero produces.
\<close>

datatype js_number = Finite rat | Infinity | NaN

definition js_divide :: "nat \<Rightarrow> nat \<Rightarrow> js_number" where
  "js_divide a b = (if b = 0 then (if a = 0 then NaN else Infinity)
                    else Finite (of_nat a / of_nat b))"

record ExtractionStats =
  highQuality :: nat
  mediumQuality :: nat
  lowQuality :: nat
  totalParametersExtracted :: nat
  averageParametersPerNode :: js_number

record NodeSchemaDatabase =
  generatedAt :: string
  nodeCount :: nat
  extractionStats :: ExtractionStats
  nodes :: "(string, ExtractedNodeSchema) alist"
  knownIssues :: "string list"

section \<open>Strings and paths\<close>

definition is_digit :: "char \<Rightarrow> bool" where
  "is_digit c = (c \<in> set ''0123456789'')"

definition digit_val :: "char \<Rightarrow> nat" where
  "digit_val c = of_char c - 48"

text \<open>\<open>parseInt\<close> on a string of decimal digits.\<close>

definition parseInt_digits :: "string \<Rightarrow> nat" where
  "parseInt_digits ds = foldl (\<lambda>n c. 10 * n + digit_val c) 0 ds"

text \<open>\<open>String.prototype.includes\<close>.\<close>

definition str_includes :: "string \<Rightarrow> string \<Rightarrow> bool" where
  "str_includes s t = sublist t s"

text \<open>\<open>s.match(/[Vv](\d+)$/)\<close>: the captured digits, when the string ends in them.\<close>

definition match_version_suffix :: "string \<Rightarrow> string option" where
  "match_version_suffix s =
     (let ds = rev (takeWhile is_digit (rev s));
          front = rev (dropWhile is_digit (rev s))
      in if ds \<noteq> [] \<and> front \<noteq> [] \<and> last front \<in> set ''Vv'' then Some ds else None)"

text \<open>\<open>s.match(/^[Vv](\d+)$/)\<close>.\<close>

definition match_version_dir :: "string \<Rightarrow> string option" where
  "match_version_dir s =
     (case s of
        [] \<Rightarrow> None
      | c # ds \<Rightarrow> if c \<in> set ''Vv'' \<and> ds \<noteq> [] \<and> list_all is_digit ds then Some ds else None)"

text \<open>\<open>part.match(/^[Vv][2-9]$/)\<close>.\<close>

definition match_v2_9 :: "string \<Rightarrow> bool" where
  "match_v2_9 s = (case s of [c, d] \<Rightarrow> c \<in> set ''Vv'' \<and> d \<in> set ''23456789'' | _ \<Rightarrow> False)"

text \<open>\<open>s.split('/')\<close>: always at least one part.\<close>

fun split_sep :: "string \<Rightarrow> string list" where
  "split_sep [] = [[]]"
| "split_sep (c # cs) =
     (if c = CHR ''/'' then [] # split_sep cs
      else (case split_sep cs of p # ps \<Rightarrow> (c # p) # ps | [] \<Rightarrow> [[c]]))"

definition strip_trailing_slashes :: "string \<Rightarrow> string" where
  "strip_trailing_slashes p = rev (dropWhile (\<lambda>c. c = CHR ''/'') (rev p))"

text \<open>The last path segment, trailing separators ignored.\<close>

definition last_segment :: "string \<Rightarrow> string" where
  "last_segment p = rev (takeWhile (\<lambda>c. c \<noteq> CHR ''/'') (rev (strip_trailing_slashes p)))"

text \<open>
  \<open>path.basename(p, ext)\<close> of Node's POSIX \<open>path\<close> module. The extension is removed
  when it is a proper suffix of the last segment. (Node returns the empty string when the
  whole path equals the extension, and keeps trailing separators when the last segment is
  a proper suffix of the extension.)
\<close>

definition basename :: "string \<Rightarrow> string \<Rightarrow> string" where
  "basename p ext =
     (let b = last_segment p in
      if ext = [] \<or> length p < length ext then b
      else if ext = p then []
      else if suffix ext b then (if b = ext then b else take (length b - length ext) b)
      else if suffix b ext then b @ takeWhile (\<lambda>c. c = CHR ''/'') (rev p)
      else b)"

text \<open>\<open>path.dirname(p)\<close> of Node's POSIX \<open>path\<close> module.\<close>

definition dirname :: "string \<Rightarrow> string" where
  "dirname p =
     (case p of
        [] \<Rightarrow> ''.''
      | c # cs \<Rightarrow>
          (let front = rev (dropWhile (\<lambda>x. x \<noteq> CHR ''/'')
                             (dropWhile (\<lambda>x. x = CHR ''/'') (rev cs)))
           in if front = [] then (if c = CHR ''/'' then ''/'' else ''.'')
              else if c = CHR ''/'' \<and> length front = 1 then ''//''
              else take (length front) p))"

section \<open>Version-group prioritizer\<close>

definition wrapper_marker :: string where
  "wrapper_marker = ''Wrapper file: VersionedNodeType''"

definition isWrapper :: "ExtractedNodeSchema \<Rightarrow> bool" where
  "isWrapper schema = list_ex (\<lambda>note. str_includes note wrapper_marker) (s_extractionNotes schema)"

text \<open>The version number the priority computation reads off a path (0 when none).\<close>

definition versionNum :: "string \<Rightarrow> nat" where
  "versionNum filePath =
     (let fileName = basename filePath ''.node.ts'';
          dirName = basename (dirname filePath) [];
          versionNum = 0;
          versionNum = (case match_version_suffix fileName of
                          Some ds \<Rightarrow> parseInt_digits ds | None \<Rightarrow> versionNum);
          versionNum = (case match_version_dir dirName of
                          Some ds \<Rightarrow> max versionNum (parseInt_digits ds) | None \<Rightarrow> versionNum)
      in versionNum)"

definition hasVersionedDir :: "string \<Rightarrow> bool" where
  "hasVersionedDir filePath = list_ex match_v2_9 (split_sep filePath)"

definition calculateVersionPriority :: "string \<Rightarrow> ExtractedNodeSchema \<Rightarrow> int" where
  "calculateVersionPriority filePath schema =
     (let priority = 0;
          priority = (if isWrapper schema then priority - 100 else priority);
          v = versionNum filePath;
          priority = (if v > 0 then priority + int v * 50 else priority + 25);
          priority = priority + int (length (s_parameters schema)) * 5;
          priority = (case s_extractionQuality schema of
                        High \<Rightarrow> priority + 50
                      | Medium \<Rightarrow> priority + 25
                      | Low \<Rightarrow> priority + 0);
          priority = (if hasVersionedDir filePath then priority + 30 else priority)
      in priority)"

record version_entry =
  v_schema :: ExtractedNodeSchema
  v_filePath :: string
  v_priority :: int

text \<open>
  \<open>Array.prototype.sort(cmp)\<close>: a stable sort; an element moves in front of another
  only when the comparator is negative for the pair.
\<close>

fun insert_cmp :: "('a \<Rightarrow> 'a \<Rightarrow> int) \<Rightarrow> 'a \<Rightarrow> 'a list \<Rightarrow> 'a list" where
  "insert_cmp cmp x [] = [x]"
| "insert_cmp cmp x (y # ys) = (if cmp x y \<le> 0 then x # y # ys else y # insert_cmp cmp x ys)"

definition js_sort :: "('a \<Rightarrow> 'a \<Rightarrow> int) \<Rightarrow> 'a list \<Rightarrow> 'a list" where
  "js_sort cmp xs = foldr (insert_cmp cmp) xs []"

text \<open>\<open>versions[0]\<close> of an empty array is \<open>undefined\<close>: \<open>None\<close>.\<close>

definition selectBestVersion :: "version_entry list \<Rightarrow> version_entry option" where
  "selectBestVersion versions =
     (case js_sort (\<lambda>a b. v_priority b - v_priority a) versions of
        [] \<Rightarrow> None
      | v # _ \<Rightarrow> Some v)"

section \<open>Quality classifier and statistics\<close>

definition determineExtractionQuality :: "ExtractedParameterSchema list \<Rightarrow> quality" where
  "determineExtractionQuality params =
     (let paramCount = length params;
          hasTypes = list_all (\<lambda>p. truthy (p_type p)) params;
          hasDescriptions =
            ((of_nat paramCount :: rat) / 2
               < of_nat (length (filter (\<lambda>p. truthy (p_description p)) params)))
      in if paramCount \<ge> 5 \<and> hasTypes \<and> hasDescriptions then High
         else if paramCount \<ge> 2 \<and> hasTypes then Medium
         else Low)"

definition generateStats :: "NodeSchemaDatabase \<Rightarrow> NodeSchemaDatabase" where
  "generateStats db =
     (let stats = extractionStats db
      in db\<lparr>extractionStats := stats\<lparr>averageParametersPerNode :=
              (if nodeCount db > 0
               then js_divide (totalParametersExtracted stats) (nodeCount db)
               else Finite 0)\<rparr>\<rparr>)"



fun show_nat :: "nat \<Rightarrow> string" where
  "show_nat n = (if n < 10 then [char_of (48 + n)]
                 else show_nat (n div 10) @ [char_of (48 + n mod 10)])"

definition show_int :: "int \<Rightarrow> string" where
  "show_int i = (if i < 0 then CHR ''-'' # show_nat (nat (- i)) else show_nat (nat i))"

definition intercalate :: "string \<Rightarrow> string list \<Rightarrow> string" where
  "intercalate sep xs = (case xs of [] \<Rightarrow> [] | y # ys \<Rightarrow> y @ concat (map (\<lambda>z. sep @ z) ys))"

fun js_to_string :: "jsval \<Rightarrow> string" where
  "js_to_string JUndefined = ''undefined''"
| "js_to_string (JBool b) = (if b then ''true'' else ''false'')"
| "js_to_string (JNum n) = show_int n"
| "js_to_string JNaN = ''NaN''"
| "js_to_string (JStr s) = s"
| "js_to_string (JArr xs) =
     intercalate '','' (map (\<lambda>v. if v = JUndefined then [] else js_to_string v) xs)"
| "js_to_string (JObj kvs) = ''[object Object]''"

definition hex_digit :: "nat \<Rightarrow> char" where
  "hex_digit n = (''0123456789abcdef'') ! (n mod 16)"

definition json_escape :: "char \<Rightarrow> string" where
  "json_escape c =
     (if c = CHR ''\"'' then [CHR 0x5C, CHR ''\"'']
      else if c = CHR 0x5C then [CHR 0x5C, CHR 0x5C]
      else if c = CHR 0x08 then [CHR 0x5C, CHR ''b'']
      else if c = CHR 0x0C then [CHR 0x5C, CHR ''f'']
      else if c = CHR 0x0A then [CHR 0x5C, CHR ''n'']
      else if c = CHR 0x0D then [CHR 0x5C, CHR ''r'']
      else if c = CHR 0x09 then [CHR 0x5C, CHR ''t'']
      else if (of_char c :: nat) < 32
        then [CHR 0x5C, CHR ''u'', CHR ''0'', CHR ''0'',
              hex_digit (of_char c div 16), hex_digit (of_char c)]
      else [c])"

definition json_quote :: "string \<Rightarrow> string" where
  "json_quote s = CHR ''\"'' # concat (map json_escape s) @ [CHR ''\"'']"

fun json_stringify :: "jsval \<Rightarrow> string" where
  "json_stringify JUndefined = ''undefined''"
| "json_stringify (JBool b) = (if b then ''true'' else ''false'')"
| "json_stringify (JNum n) = show_int n"
| "json_stringify JNaN = ''null''"
| "json_stringify (JStr s) = json_quote s"
| "json_stringify (JArr xs) =
     ''['' @ intercalate '','' (map (\<lambda>v. if v = JUndefined then ''null'' else json_stringify v) xs) @ '']''"
| "json_stringify (JObj kvs) =
     ''{'' @ intercalate '','' (map (\<lambda>(k, v). json_quote k @ '':'' @ json_stringify v)
                                 (filter (\<lambda>(k, v). v \<noteq> JUndefined) kvs)) @ ''}''"


definition get_property :: "jsval \<Rightarrow> string \<Rightarrow> jsval" where
  "get_property v k =
     (case v of
        JObj kvs \<Rightarrow> (case map_of kvs k of Some x \<Rightarrow> x | None \<Rightarrow> JUndefined)
      | _ \<Rightarrow> JUndefined)"

definition index_entries :: "'a list \<Rightarrow> (string \<times> 'a) list" where
  "index_entries xs = map (\<lambda>(i, x). (show_nat i, x)) (enumerate 0 xs)"

definition object_entries :: "jsval \<Rightarrow> (string \<times> jsval) list" where
  "object_entries v =
     (case v of
        JObj kvs \<Rightarrow> kvs
      | JArr xs \<Rightarrow> index_entries xs
      | JStr s \<Rightarrow> index_entries (map (\<lambda>c. JStr [c]) s)
      | _ \<Rightarrow> [])"


datatype ts_node =
    Identifier string
  | StringLiteral string
  | NumericLiteral string
  | TrueKeyword
  | FalseKeyword
  | ArrayLiteralExpression "ts_node list"
  | ObjectLiteralExpression "ts_node list"
  | PropertyAssignment ts_node ts_node
  | VariableStatement bool "ts_node list"
  | VariableDeclaration ts_node "ts_node option"
  | InterfaceDeclaration string "ts_node list"
  | ClassDeclaration "ts_node list" "ts_node list"
  | HeritageClause bool "ts_node list"
  | ExpressionWithTypeArguments ts_node
  | SourceFile "ts_node list"
  | OtherNode "ts_node list"

fun children :: "ts_node \<Rightarrow> ts_node list" where
  "children (ArrayLiteralExpression elements) = elements"
| "children (ObjectLiteralExpression properties) = properties"
| "children (PropertyAssignment name initializer) = [name, initializer]"
| "children (VariableStatement exported declarations) = declarations"
| "children (VariableDeclaration name initializer) =
     name # (case initializer of None \<Rightarrow> [] | Some e \<Rightarrow> [e])"
| "children (InterfaceDeclaration name members) = members"
| "children (ClassDeclaration heritageClauses members) = heritageClauses @ members"
| "children (HeritageClause extends types) = types"
| "children (ExpressionWithTypeArguments expression) = [expression]"
| "children (SourceFile statements) = statements"
| "children (OtherNode cs) = cs"
| "children _ = []"

lemma size_member: "c \<in> set cs \<Longrightarrow> size c \<le> size_list size cs"
  by (simp add: size_list_estimation')

lemma size_child: "c \<in> set (children n) \<Longrightarrow> size c < size n"
  by (cases n) (auto dest: size_member split: option.splits)

function visit :: "(ts_node \<Rightarrow> 's \<Rightarrow> 's) \<Rightarrow> (ts_node \<Rightarrow> bool) \<Rightarrow> ts_node \<Rightarrow> 's \<Rightarrow> 's" where
  "visit act skip node s =
     (if skip node then act node s
      else fold (visit act skip) (children node) (act node s))"
  by pat_completeness auto
termination
  by (relation "measure (\<lambda>(act, skip, node, s). size node)") (auto simp: size_child)

declare visit.simps [simp del]

fun identifier_property :: "ts_node \<Rightarrow> (string \<times> ts_node) option" where
  "identifier_property (PropertyAssignment (Identifier propName) initializer) =
     Some (propName, initializer)"
| "identifier_property _ = None"

lemma identifier_property_size:
  "identifier_property p = Some (k, i) \<Longrightarrow> size i < size p"
  by (induction p rule: identifier_property.induct) auto

definition js_parseInt :: "string \<Rightarrow> jsval" where
  "js_parseInt text =
     (let ds = takeWhile is_digit text
      in if ds = [] then JNaN else JNum (int (parseInt_digits ds)))"

function (sequential) extractValueFromNode :: "ts_node \<Rightarrow> jsval" where
  "extractValueFromNode (StringLiteral text) = JStr text"
| "extractValueFromNode (NumericLiteral text) = js_parseInt text"
| "extractValueFromNode TrueKeyword = JBool True"
| "extractValueFromNode FalseKeyword = JBool False"
| "extractValueFromNode (ArrayLiteralExpression elements) =
     JArr (filter (\<lambda>v. v \<noteq> JUndefined) (map extractValueFromNode elements))"
| "extractValueFromNode (ObjectLiteralExpression properties) =
     (let obj = fold (\<lambda>prop obj.
            case identifier_property prop of
              Some (propName, initializer) \<Rightarrow>
                (let value = extractValueFromNode initializer
                 in if value \<noteq> JUndefined then AList.update propName value obj else obj)
            | None \<Rightarrow> obj) properties []
      in if obj \<noteq> [] then JObj obj else JUndefined)"
| "extractValueFromNode _ = JUndefined"
  by pat_completeness auto
termination
  by (relation "measure size")
    (auto dest!: identifier_property_size size_member)




definition to_lower :: "char \<Rightarrow> char" where
  "to_lower c = (if c \<in> set ''ABCDEFGHIJKLMNOPQRSTUVWXYZ'' then char_of (of_char c + (32::nat)) else c)"

definition to_upper :: "char \<Rightarrow> char" where
  "to_upper c = (if c \<in> set ''abcdefghijklmnopqrstuvwxyz'' then char_of (of_char c - (32::nat)) else c)"

definition toLowerCase :: "string \<Rightarrow> string" where
  "toLowerCase s = map to_lower s"

definition is_space :: "char \<Rightarrow> bool" where
  "is_space c = (c \<in> set [CHR '' '', CHR 0x09, CHR 0x0A, CHR 0x0B, CHR 0x0C, CHR 0x0D])"

definition trim :: "string \<Rightarrow> string" where
  "trim s = rev (dropWhile is_space (rev (dropWhile is_space s)))"

text \<open>\<open>s.replace(/[Vv]\d+$/, '')\<close>\<close>
definition strip_version_suffix :: "string \<Rightarrow> string" where
  "strip_version_suffix s =
     (case match_version_suffix s of
        Some ds \<Rightarrow> take (length s - length ds - 1) s
      | None \<Rightarrow> s)"

text \<open>\<open>s.replace(/([a-z])([A-Z])/g, '$1 $2')\<close>\<close>
fun space_camel :: "string \<Rightarrow> string" where
  "space_camel (a # b # cs) =
     (if a \<in> set ''abcdefghijklmnopqrstuvwxyz'' \<and> b \<in> set ''ABCDEFGHIJKLMNOPQRSTUVWXYZ''
      then a # CHR '' '' # space_camel (b # cs)
      else a # space_camel (b # cs))"
| "space_camel cs = cs"

text \<open>\<open>s.replace(/^./, str => str.toUpperCase())\<close>\<close>
definition upper_first :: "string \<Rightarrow> string" where
  "upper_first s =
     (case s of
        [] \<Rightarrow> []
      | c # cs \<Rightarrow> if c = CHR 0x0A \<or> c = CHR 0x0D then s else to_upper c # cs)"

definition formatDisplayName :: "string \<Rightarrow> string" where
  "formatDisplayName name = trim (strip_version_suffix (upper_first (space_camel name)))"


definition extractBaseNodeName :: "string \<Rightarrow> string" where
  "extractBaseNodeName filePath =
     (let fileName = basename filePath ''.node.ts'';
          dirName = basename (dirname filePath) [];
          cleanFileName = strip_version_suffix fileName;
          cleanDirName = strip_version_suffix dirName
      in if cleanFileName = ''index'' \<or> str_includes cleanFileName ''Test''
         then toLowerCase cleanDirName
         else toLowerCase cleanFileName)"


definition groupNodeFilesByBaseName :: "string list \<Rightarrow> string + (string \<times> string list) list" where
  "groupNodeFilesByBaseName files =
     fold (\<lambda>file acc.
        case acc of
          Inl err \<Rightarrow> Inl err
        | Inr groups \<Rightarrow>
            (let baseName = extractBaseNodeName file
             in if baseName = ''constructor'' \<or> baseName = ''__proto__''
                then Inl ''TypeError: groups[baseName].push is not a function''
                else
                  (let groups = (if map_of groups baseName = None
                                 then AList.update baseName [] groups else groups)
                   in Inr (AList.map_entry baseName (\<lambda>fs. fs @ [file]) groups))))
       files (Inr [])"




definition assign_property :: "ts_node \<Rightarrow> (string \<times> jsval) list \<Rightarrow> (string \<times> jsval) list" where
  "assign_property prop obj =
     (case identifier_property prop of
        Some (propName, initializer) \<Rightarrow>
          (let value = extractValueFromNode initializer
           in if value \<noteq> JUndefined then AList.update propName value obj else obj)
      | None \<Rightarrow> obj)"

definition get_field :: "(string \<times> jsval) list \<Rightarrow> string \<Rightarrow> jsval" where
  "get_field obj k = (case map_of obj k of Some v \<Rightarrow> v | None \<Rightarrow> JUndefined)"

definition parsePropertyObject :: "ts_node list \<Rightarrow> ExtractedParameterSchema option" where
  "parsePropertyObject properties =
     (let param = fold assign_property properties []
      in if truthy (get_field param ''name'') \<and> truthy (get_field param ''type'')
         then Some \<lparr>
           p_name = get_field param ''name'',
           p_displayName = js_or (get_field param ''displayName'') (get_field param ''name''),
           p_type = get_field param ''type'',
           p_default = get_field param ''default'',
           p_description = get_field param ''description'',
           p_required = get_field param ''required'',
           p_placeholder = get_field param ''placeholder'',
           p_hint = get_field param ''hint'',
           p_options = get_field param ''options'',
           p_displayOptions = get_field param ''displayOptions'',
           p_typeOptions = get_field param ''typeOptions'',
           p_routing = get_field param ''routing'',
           p_modes = get_field param ''modes'',
           p_extractValue = get_field param ''extractValue'',
           p_nested = get_field param ''nested'',
           p_exampleValue = js_or (get_field param ''exampleValue'') (get_field param ''default''),
           p_workflowJsonStructure = JObj [
             (''parameterName'', get_field param ''name''),
             (''workflowJsonValue'',
                js_or (get_field param ''exampleValue'') (get_field param ''default'')),
             (''usage'', JStr (''\"'' @ js_to_string (get_field param ''name'') @ ''\": ''
                @ json_stringify (js_or (get_field param ''exampleValue'')
                                        (get_field param ''default'')))),
             (''type'', get_field param ''type''),
             (''required'', js_or (get_field param ''required'') (JBool False))]
         \<rparr>
         else None)"

definition conditionalParam ::
  "ExtractedParameterSchema \<Rightarrow> string \<Rightarrow> jsval \<Rightarrow> ExtractedParameterSchema" where
  "conditionalParam param conditionKey value =
     param\<lparr>
       p_name := JStr (js_to_string (p_name param) @ ''_when_'' @ conditionKey @ ''_''
                       @ js_to_string value),
       p_displayName := JStr (js_to_string (p_displayName param) @ '' (when '' @ conditionKey
                       @ ''='' @ js_to_string value @ '')''),
       p_exampleValue := p_exampleValue param,
       p_workflowJsonStructure := JObj
         (AList.update ''conditionalContext''
            (JObj [(''condition'', JStr conditionKey),
                   (''value'', value),
                   (''description'', JStr (''Only visible when '' @ conditionKey
                       @ '' is set to '' @ js_to_string value))])
            (AList.update ''parameterName'' (p_name param)
               (object_entries (p_workflowJsonStructure param))))\<rparr>"

definition expanded_note_prefix :: string where
  "expanded_note_prefix =
     [CHR 0xEF, CHR 0xA3, CHR 0xBF, CHR 0xC3, CHR 0xBC, CHR 0xC3, CHR 0xAE, CHR 0xC3, CHR 0x84]"

definition expandConditionalParameters ::
  "ExtractedParameterSchema list \<Rightarrow> string list
     \<Rightarrow> ExtractedParameterSchema list \<times> string list" where
  "expandConditionalParameters params extractionNotes =
     (let expandedParameters = params;
          conditionalCount = (0::nat);
          (expandedParameters, conditionalCount) =
            fold (\<lambda>param (expandedParameters, conditionalCount).
                if truthy (get_property (p_displayOptions param) ''show'')
                then
                  (let showConditions = get_property (p_displayOptions param) ''show''
                   in fold (\<lambda>(conditionKey, conditionValues) (expandedParameters, conditionalCount).
                        case conditionValues of
                          JArr vs \<Rightarrow>
                            fold (\<lambda>value (expandedParameters, conditionalCount).
                                    (expandedParameters @ [conditionalParam param conditionKey value],
                                     conditionalCount + 1))
                              vs (expandedParameters, conditionalCount)
                        | _ \<Rightarrow> (expandedParameters, conditionalCount))
                      (object_entries showConditions) (expandedParameters, conditionalCount))
                else (expandedParameters, conditionalCount))
              params (expandedParameters, conditionalCount);
          extractionNotes =
            (if conditionalCount > 0
             then extractionNotes @ [expanded_note_prefix @ '' Expanded '' @ show_nat conditionalCount
                    @ '' conditional parameters from displayOptions.show'']
             else extractionNotes)
      in (expandedParameters, extractionNotes))"

text \<open>The object-literal elements of an array literal, each parsed as a parameter.\<close>
definition parse_elements :: "ts_node list \<Rightarrow> ExtractedParameterSchema list" where
  "parse_elements elements =
     fold (\<lambda>element properties.
        case element of
          ObjectLiteralExpression ps \<Rightarrow>
            (case parsePropertyObject ps of
               Some param \<Rightarrow> properties @ [param]
             | None \<Rightarrow> properties)
        | _ \<Rightarrow> properties) elements []"

fun findDirectProperties_node ::
  "ts_node \<Rightarrow> ExtractedParameterSchema list \<Rightarrow> ExtractedParameterSchema list" where
  "findDirectProperties_node (PropertyAssignment (Identifier propName)
                                (ArrayLiteralExpression elements)) properties =
     (if propName = ''properties'' then properties @ parse_elements elements else properties)"
| "findDirectProperties_node (VariableStatement exported declarations) properties =
     (if exported
      then fold (\<lambda>declaration properties.
             case declaration of
               VariableDeclaration (Identifier declName) (Some (ArrayLiteralExpression elements)) \<Rightarrow>
                 if declName = ''description'' then properties @ parse_elements elements
                 else properties
             | _ \<Rightarrow> properties) declarations properties
      else properties)"
| "findDirectProperties_node _ properties = properties"

definition findDirectProperties :: "ts_node \<Rightarrow> ExtractedParameterSchema list" where
  "findDirectProperties sourceFile = visit findDirectProperties_node (\<lambda>_. False) sourceFile []"

record exported_constant =
  c_name :: string
  c_type :: string
  c_properties :: "ExtractedParameterSchema list"

fun findExportedConstants_node :: "ts_node \<Rightarrow> exported_constant list \<Rightarrow> exported_constant list" where
  "findExportedConstants_node (VariableStatement exported declarations) constants =
     (if exported
      then fold (\<lambda>declaration constants.
             case declaration of
               VariableDeclaration (Identifier declName) (Some (ArrayLiteralExpression elements)) \<Rightarrow>
                 constants @ [\<lparr>c_name = declName, c_type = ''array'',
                               c_properties = parse_elements elements\<rparr>]
             | _ \<Rightarrow> constants) declarations constants
      else constants)"
| "findExportedConstants_node _ constants = constants"

definition findExportedConstants :: "ts_node \<Rightarrow> exported_constant list" where
  "findExportedConstants sourceFile = visit findExportedConstants_node (\<lambda>_. False) sourceFile []"




definition extractDescriptionFromObjectLiteral ::
  "ts_node list \<Rightarrow> (string \<times> jsval) list \<Rightarrow> (string \<times> jsval) list" where
  "extractDescriptionFromObjectLiteral properties description =
     fold assign_property properties description"

fun findNodeDescription_variables ::
  "ts_node \<Rightarrow> (string \<times> jsval) list \<times> string list \<Rightarrow> (string \<times> jsval) list \<times> string list" where
  "findNodeDescription_variables (VariableStatement exported declarations) acc =
     fold (\<lambda>declaration (description, extractionNotes).
        case declaration of
          VariableDeclaration declName (Some (ObjectLiteralExpression properties)) \<Rightarrow>
            (let variableName = (case declName of Identifier text \<Rightarrow> text | _ \<Rightarrow> [])
             in if str_includes variableName ''description''
                   \<or> str_includes variableName ''Description''
                then (extractDescriptionFromObjectLiteral properties description,
                      extractionNotes @ [''Found description via variable: '' @ variableName])
                else (description, extractionNotes))
        | _ \<Rightarrow> (description, extractionNotes)) declarations acc"
| "findNodeDescription_variables _ acc = acc"

fun findNodeDescription_property ::
  "ts_node \<Rightarrow> (string \<times> jsval) list \<times> string list \<Rightarrow> (string \<times> jsval) list \<times> string list" where
  "findNodeDescription_property (PropertyAssignment (Identifier propName)
                                   (ObjectLiteralExpression properties))
                                (description, extractionNotes) =
     (if propName = ''description''
      then (extractDescriptionFromObjectLiteral properties description,
            extractionNotes @ [''Found description via class property''])
      else (description, extractionNotes))"
| "findNodeDescription_property _ acc = acc"

fun is_INodeTypeDescription :: "ts_node \<Rightarrow> bool" where
  "is_INodeTypeDescription (InterfaceDeclaration name members) = (name = ''INodeTypeDescription'')"
| "is_INodeTypeDescription _ = False"

definition findNodeDescription ::
  "ts_node \<Rightarrow> string \<Rightarrow> string list \<Rightarrow> (string \<times> jsval) list option \<times> string list" where
  "findNodeDescription sourceFile filePath extractionNotes =
     (let (description, extractionNotes) =
            visit (\<lambda>node acc. findNodeDescription_property node
                                 (findNodeDescription_variables node acc))
                  is_INodeTypeDescription sourceFile ([], extractionNotes);
          (description, extractionNotes) =
            (if \<not> truthy (get_field description ''displayName'')
             then
               (let fileName = basename filePath ''.node.ts'';
                    dirName = basename (dirname filePath) []
                in if dirName \<noteq> ''nodes'' \<and> dirName \<noteq> ''base''
                      \<and> \<not> str_includes fileName ''Test''
                   then (AList.update ''name'' (JStr (toLowerCase dirName))
                           (AList.update ''displayName'' (JStr (formatDisplayName dirName))
                              description),
                         extractionNotes @ [''Inferred name from directory: '' @ dirName])
                   else if fileName \<noteq> ''index''
                   then (AList.update ''name'' (JStr (toLowerCase fileName))
                           (AList.update ''displayName'' (JStr (formatDisplayName fileName))
                              description),
                         extractionNotes @ [''Inferred name from filename: '' @ fileName])
                   else (description, extractionNotes))
             else (description, extractionNotes))
      in (if length description > 0 then Some description else None, extractionNotes))"

record wrapper_info =
  w_isWrapper :: bool
  w_defaultVersion :: "string option"

fun extends_VersionedNodeType :: "ts_node \<Rightarrow> bool" where
  "extends_VersionedNodeType (HeritageClause extends types) =
     (extends \<and> list_ex (\<lambda>t. case t of
                  ExpressionWithTypeArguments (Identifier text) \<Rightarrow> text = ''VersionedNodeType''
                | _ \<Rightarrow> False) types)"
| "extends_VersionedNodeType _ = False"

fun detectVersionedNodeWrapper_node :: "ts_node \<Rightarrow> wrapper_info \<Rightarrow> wrapper_info" where
  "detectVersionedNodeWrapper_node (ClassDeclaration heritageClauses members) info =
     (if list_ex extends_VersionedNodeType heritageClauses
      then info\<lparr>w_isWrapper := True\<rparr> else info)"
| "detectVersionedNodeWrapper_node (PropertyAssignment (Identifier propName)
                                      (NumericLiteral text)) info =
     (if propName = ''defaultVersion'' then info\<lparr>w_defaultVersion := Some text\<rparr> else info)"
| "detectVersionedNodeWrapper_node _ info = info"

definition detectVersionedNodeWrapper :: "ts_node \<Rightarrow> wrapper_info" where
  "detectVersionedNodeWrapper sourceFile =
     fold (visit detectVersionedNodeWrapper_node (\<lambda>_. False)) (children sourceFile)
       \<lparr>w_isWrapper = False, w_defaultVersion = None\<rparr>"

text \<open>Truthiness of \<open>parseFloat(text)\<close> for the text of a numeric literal.\<close>
definition number_text_truthy :: "string \<Rightarrow> bool" where
  "number_text_truthy text =
     (prefix ''Infinity'' text
      \<or> list_ex (\<lambda>c. c \<in> set ''123456789'')
           (takeWhile (\<lambda>c. is_digit c \<or> c = CHR ''.'') text))"

definition defaultVersion_truthy :: "wrapper_info \<Rightarrow> bool" where
  "defaultVersion_truthy info =
     (case w_defaultVersion info of Some text \<Rightarrow> number_text_truthy text | None \<Rightarrow> False)"

text \<open>The default version as a template literal prints it (empty when there is none).\<close>

definition defaultVersion_text :: "wrapper_info \<Rightarrow> string" where
  "defaultVersion_text info = (case w_defaultVersion info of Some text \<Rightarrow> text | None \<Rightarrow> [])"

datatype import_source = ResolvedFile ts_node | OperationFile ts_node

record environment =
  readSourceFile :: "string \<Rightarrow> string + ts_node"
  findImplementationFileForVersion :: "string \<Rightarrow> string \<Rightarrow> string option"
  resolveImports :: "ts_node \<Rightarrow> string \<Rightarrow> string + (import_source list \<times> string list)"

fun import_properties :: "import_source \<Rightarrow> ExtractedParameterSchema list" where
  "import_properties (ResolvedFile sourceFile) = findDirectProperties sourceFile"
| "import_properties (OperationFile sourceFile) =
     findDirectProperties sourceFile
     @ concat (map c_properties
         (filter (\<lambda>constant. c_type constant = ''array''
                              \<and> str_includes (c_name constant) ''properties'')
            (findExportedConstants sourceFile)))"

definition resolveImportedProperties ::
  "environment \<Rightarrow> ts_node \<Rightarrow> string \<Rightarrow> string list
     \<Rightarrow> string + (ExtractedParameterSchema list \<times> string list)" where
  "resolveImportedProperties env sourceFile filePath extractionNotes =
     (case resolveImports env sourceFile filePath of
        Inl message \<Rightarrow> Inl message
      | Inr (sources, notes) \<Rightarrow>
          Inr (concat (map import_properties sources), extractionNotes @ notes))"

definition extractPropertiesAST ::
  "environment \<Rightarrow> ts_node \<Rightarrow> string \<Rightarrow> string list \<Rightarrow> NodeSchemaDatabase
     \<Rightarrow> string + (ExtractedParameterSchema list \<times> string list \<times> NodeSchemaDatabase)" where
  "extractPropertiesAST env sourceFile filePath extractionNotes db =
     (let params = [];
          directProperties = findDirectProperties sourceFile;
          (params, extractionNotes) =
            (if length directProperties > 0
             then (params @ directProperties,
                   extractionNotes @ [''Found '' @ show_nat (length directProperties)
                                      @ '' direct properties''])
             else (params, extractionNotes))
      in case resolveImportedProperties env sourceFile filePath extractionNotes of
           Inl message \<Rightarrow> Inl message
         | Inr (importedProperties, extractionNotes) \<Rightarrow>
             (let params = params @ importedProperties;
                  (expandedParameters, extractionNotes) =
                     expandConditionalParameters params extractionNotes;
                  stats = extractionStats db;
                  db = db\<lparr>extractionStats := stats\<lparr>totalParametersExtracted :=
                          totalParametersExtracted stats + length expandedParameters\<rparr>\<rparr>
              in Inr (expandedParameters, extractionNotes, db)))"

definition extractNodeSchemaAST ::
  "environment \<Rightarrow> ts_node \<Rightarrow> string \<Rightarrow> NodeSchemaDatabase
     \<Rightarrow> string + (ExtractedNodeSchema option \<times> NodeSchemaDatabase)" where
  "extractNodeSchemaAST env sourceFile filePath db =
     (let extractionNotes = []
      in case findNodeDescription sourceFile filePath extractionNotes of
           (None, extractionNotes) \<Rightarrow> Inr (None, db)
         | (Some description, extractionNotes) \<Rightarrow>
             (case extractPropertiesAST env sourceFile filePath extractionNotes db of
                Inl message \<Rightarrow> Inl message
              | Inr (params, extractionNotes, db) \<Rightarrow>
                  (let q = determineExtractionQuality params
                   in Inr (Some \<lparr>
                        s_displayName = js_or (get_field description ''displayName'') (JStr ''Unknown''),
                        s_name = js_or (get_field description ''name'') (JStr ''unknown''),
                        s_description = get_field description ''description'',
                        s_group = get_field description ''group'',
                        s_version = js_or (get_field description ''version'') (JNum 1),
                        s_icon = get_field description ''icon'',
                        s_parameters = params,
                        s_credentials = get_field description ''credentials'',
                        s_webhookId = get_field description ''webhookId'',
                        s_polling = get_field description ''polling'',
                        s_supportsCORS = get_field description ''supportsCORS'',
                        s_extractionQuality = q,
                        s_extractionNotes = extractionNotes\<rparr>, db))))"

definition add_issue :: "string \<Rightarrow> NodeSchemaDatabase \<Rightarrow> NodeSchemaDatabase" where
  "add_issue issue db = db\<lparr>knownIssues := knownIssues db @ [issue]\<rparr>"

text \<open>
  \<open>parseNodeFile\<close> calls itself on the implementation file a wrapper points to; the
  fuel bounds the length of that chain of redirections, and \<open>None\<close> means that it
  ran out. Every exception is caught inside the call and becomes a known issue and the
  result \<open>null\<close>.
\<close>

fun parseNodeFile ::
  "nat \<Rightarrow> environment \<Rightarrow> string \<Rightarrow> NodeSchemaDatabase
     \<Rightarrow> (ExtractedNodeSchema option \<times> NodeSchemaDatabase) option" where
  "parseNodeFile 0 env filePath db = None"
| "parseNodeFile (Suc fuel) env filePath db =
     (case readSourceFile env filePath of
        Inl message \<Rightarrow>
          Some (None, add_issue (''Error processing '' @ filePath @ '': '' @ message) db)
      | Inr sourceFile \<Rightarrow>
          (let wrapperInfo = detectVersionedNodeWrapper sourceFile;
               implementationFile =
                 (if w_isWrapper wrapperInfo \<and> defaultVersion_truthy wrapperInfo
                  then findImplementationFileForVersion env filePath
                         (defaultVersion_text wrapperInfo)
                  else None)
           in case implementationFile of
                Some file \<Rightarrow> parseNodeFile fuel env file db
              | None \<Rightarrow>
                  (case extractNodeSchemaAST env sourceFile filePath db of
                     Inl message \<Rightarrow>
                       Some (None, add_issue (''Error processing '' @ filePath @ '': '' @ message) db)
                   | Inr (None, db) \<Rightarrow> Some (None, db)
                   | Inr (Some nodeSchema, db) \<Rightarrow>
                       Some (Some (if w_isWrapper wrapperInfo
                                   then nodeSchema\<lparr>s_extractionNotes := s_extractionNotes nodeSchema
                                          @ [''Wrapper file: VersionedNodeType with defaultVersion ''
                                             @ (if defaultVersion_truthy wrapperInfo
                                                then defaultVersion_text wrapperInfo
                                                else ''unspecified'')]\<rparr>
                                   else nodeSchema), db))))"

definition updateQualityStats :: "ExtractedNodeSchema \<Rightarrow> NodeSchemaDatabase \<Rightarrow> NodeSchemaDatabase" where
  "updateQualityStats schema db =
     (let stats = extractionStats db
      in db\<lparr>extractionStats :=
           (case s_extractionQuality schema of
              High \<Rightarrow> stats\<lparr>highQuality := highQuality stats + 1\<rparr>
            | Medium \<Rightarrow> stats\<lparr>mediumQuality := mediumQuality stats + 1\<rparr>
            | Low \<Rightarrow> stats\<lparr>lowQuality := lowQuality stats + 1\<rparr>)\<rparr>)"

definition store_schema ::
  "string \<Rightarrow> ExtractedNodeSchema \<Rightarrow> NodeSchemaDatabase \<Rightarrow> NodeSchemaDatabase" where
  "store_schema key schema db =
     updateQualityStats schema
       (db\<lparr>nodes := DAList.update key schema (nodes db), nodeCount := nodeCount db + 1\<rparr>)"

definition processNodeFileAST ::
  "nat \<Rightarrow> environment \<Rightarrow> string \<Rightarrow> NodeSchemaDatabase \<Rightarrow> NodeSchemaDatabase option" where
  "processNodeFileAST fuel env filePath db =
     (case parseNodeFile fuel env filePath db of
        None \<Rightarrow> None
      | Some (None, db) \<Rightarrow> Some db
      | Some (Some schema, db) \<Rightarrow>
          (let nodeTypeName = extractBaseNodeName filePath
           in Some (store_schema nodeTypeName schema db)))"

fun parse_versions ::
  "nat \<Rightarrow> environment \<Rightarrow> string list \<Rightarrow> version_entry list \<Rightarrow> NodeSchemaDatabase
     \<Rightarrow> (version_entry list \<times> NodeSchemaDatabase) option" where
  "parse_versions fuel env [] versions db = Some (versions, db)"
| "parse_versions fuel env (file # files) versions db =
     (case parseNodeFile fuel env file db of
        None \<Rightarrow> None
      | Some (None, db) \<Rightarrow> parse_versions fuel env files versions db
      | Some (Some schema, db) \<Rightarrow>
          (let priority = calculateVersionPriority file schema
           in parse_versions fuel env files
                (versions @ [\<lparr>v_schema = schema, v_filePath = file, v_priority = priority\<rparr>]) db))"

definition processNodeGroupAST ::
  "nat \<Rightarrow> environment \<Rightarrow> string \<Rightarrow> string list \<Rightarrow> NodeSchemaDatabase
     \<Rightarrow> NodeSchemaDatabase option" where
  "processNodeGroupAST fuel env baseName files db =
     (if length files = 1 then processNodeFileAST fuel env (hd files) db
      else
        (case parse_versions fuel env files [] db of
           None \<Rightarrow> None
         | Some (versions, db) \<Rightarrow>
             if length versions > 0
             then
               (case selectBestVersion versions of
                  None \<Rightarrow>
                    Some (add_issue (''Failed to process node group '' @ baseName
                                     @ '': Cannot read properties of undefined'') db)
                | Some bestVersion \<Rightarrow>
                    (let schema = (v_schema bestVersion)\<lparr>s_extractionNotes :=
                           s_extractionNotes (v_schema bestVersion)
                           @ [''Selected best version from '' @ show_nat (length versions)
                              @ '' candidates ('' @ v_filePath bestVersion @ '')'']\<rparr>
                     in Some (store_schema baseName schema db)))
             else Some db))"

fun process_groups ::
  "nat \<Rightarrow> environment \<Rightarrow> (string \<times> string list) list \<Rightarrow> NodeSchemaDatabase
     \<Rightarrow> NodeSchemaDatabase option" where
  "process_groups fuel env [] db = Some db"
| "process_groups fuel env ((baseName, files) # groups) db =
     (case processNodeGroupAST fuel env baseName files db of
        None \<Rightarrow> None
      | Some db \<Rightarrow> process_groups fuel env groups db)"

definition initial_database :: "string \<Rightarrow> NodeSchemaDatabase" where
  "initial_database timestamp =
     \<lparr>generatedAt = timestamp, nodeCount = 0,
      extractionStats = \<lparr>highQuality = 0, mediumQuality = 0, lowQuality = 0,
                          totalParametersExtracted = 0, averageParametersPerNode = Finite 0\<rparr>,
      nodes = DAList.empty, knownIssues = []\<rparr>"

definition extractAllSchemas ::
  "nat \<Rightarrow> environment \<Rightarrow> string list \<Rightarrow> NodeSchemaDatabase
     \<Rightarrow> (string + NodeSchemaDatabase) option" where
  "extractAllSchemas fuel env nodeFiles db =
     (case groupNodeFilesByBaseName nodeFiles of
        Inl message \<Rightarrow> Some (Inl message)
      | Inr nodeFileGroups \<Rightarrow>
          (case process_groups fuel env nodeFileGroups db of
             None \<Rightarrow> None
           | Some db \<Rightarrow> Some (Inr (generateStats db))))"











definition object_fromEntries :: "(string \<times> 'v) list \<Rightarrow> (string, 'v) alist" where
  "object_fromEntries entries = fold (\<lambda>(k, v). DAList.update k v) entries DAList.empty"

definition saveResults ::
  "bool \<Rightarrow> NodeSchemaDatabase \<Rightarrow> string + (NodeSchemaDatabase \<times> NodeSchemaDatabase)" where
  "saveResults ignoredDirExists db =
     (if \<not> ignoredDirExists
      then Inl ''_ignored directory does not exist. Please create it first.''
      else
        (let highQualityNodes = object_fromEntries
               (filter (\<lambda>(_, node). s_extractionQuality node = High
                                    \<or> s_extractionQuality node = Medium)
                  (DAList.impl_of (nodes db)))
         in Inr (db, db\<lparr>nodes := highQualityNodes,
                        nodeCount := length (DAList.impl_of highQualityNodes)\<rparr>)))"

definition described :: "ExtractedParameterSchema list \<Rightarrow> nat" where
  "described ps = length (filter (\<lambda>p. truthy (p_description p)) ps)"


section \<open>Example values\<close>

definition example_parameter :: "string \<Rightarrow> jsval \<Rightarrow> jsval \<Rightarrow> ExtractedParameterSchema" where
  "example_parameter name description displayOptions =
     \<lparr>p_name = JStr name, p_displayName = JStr name, p_type = JStr ''string'',
      p_default = JUndefined, p_description = description, p_required = JUndefined,
      p_placeholder = JUndefined, p_hint = JUndefined, p_options = JUndefined,
      p_displayOptions = displayOptions, p_typeOptions = JUndefined, p_routing = JUndefined,
      p_modes = JUndefined, p_extractValue = JUndefined, p_nested = JUndefined,
      p_exampleValue = JUndefined,
      p_workflowJsonStructure = JObj [
        (''parameterName'', JStr name),
        (''workflowJsonValue'', JUndefined),
        (''usage'', JStr (''\"'' @ name @ ''\": undefined'')),
        (''type'', JStr ''string''),
        (''required'', JBool False)]\<rparr>"

definition example_schema ::
  "ExtractedParameterSchema list \<Rightarrow> string list \<Rightarrow> ExtractedNodeSchema" where
  "example_schema params notes =
     \<lparr>s_displayName = JStr ''Foo'', s_name = JStr ''foo'', s_description = JUndefined,
      s_group = JUndefined, s_version = JNum 1, s_icon = JUndefined, s_parameters = params,
      s_credentials = JUndefined, s_webhookId = JUndefined, s_polling = JUndefined,
      s_supportsCORS = JUndefined, s_extractionQuality = determineExtractionQuality params,
      s_extractionNotes = notes\<rparr>"

definition wrapper_with_10 :: ExtractedNodeSchema where
  "wrapper_with_10 =
     example_schema (replicate 10 (example_parameter ''field'' (JStr ''A field'') JUndefined))
       [''Wrapper file: VersionedNodeType with defaultVersion 2'']"


definition plain_with_2 :: ExtractedNodeSchema where
  "plain_with_2 =
     example_schema (replicate 2 (example_parameter ''field'' JUndefined JUndefined)) []"

definition example_versions :: "version_entry list" where
  "example_versions =
     [\<lparr>v_schema = plain_with_2, v_filePath = ''/nodes/Foo/Foo.node.ts'', v_priority = 60\<rparr>,
      \<lparr>v_schema = plain_with_2, v_filePath = ''/nodes/Foo/v2/FooV2.node.ts'', v_priority = 165\<rparr>,
      \<lparr>v_schema = plain_with_2, v_filePath = ''/nodes/Foo/V2/FooV2.node.ts'', v_priority = 165\<rparr>]"

definition five_described :: "ExtractedParameterSchema list" where
  "five_described =
     [example_parameter ''a'' (JStr ''first'') JUndefined,
      example_parameter ''b'' (JStr ''second'') JUndefined,
      example_parameter ''c'' (JStr ''third'') JUndefined,
      example_parameter ''d'' JUndefined JUndefined,
      example_parameter ''e'' (JStr []) JUndefined]"

definition example_database :: NodeSchemaDatabase where
  "example_database =
     store_schema ''baz'' (example_schema [] [])
       (store_schema ''bar'' plain_with_2
          (store_schema ''foo'' wrapper_with_10 (initial_database ''2025-01-01T00:00:00.000Z'')))"

section \<open>The priority score\<close>












section \<open>Selecting the best version\<close>

lemma insert_cmp_ne: "insert_cmp cmp x ys \<noteq> []"
  by (cases ys) auto

lemma js_sort_Cons: "js_sort cmp (x # xs) = insert_cmp cmp x (js_sort cmp xs)"
  by (simp add: js_sort_def)

lemma js_sort_Nil: "js_sort cmp [] = []"
  by (simp add: js_sort_def)

lemma js_sort_ne: "xs \<noteq> [] \<Longrightarrow> js_sort cmp xs \<noteq> []"
  by (cases xs) (auto simp: js_sort_Cons insert_cmp_ne)

lemma hd_insert_cmp:
  "hd (insert_cmp cmp x ys) = (if ys = [] \<or> cmp x (hd ys) \<le> 0 then x else hd ys)"
  by (cases ys) auto

abbreviation by_priority :: "version_entry \<Rightarrow> version_entry \<Rightarrow> int" where
  "by_priority \<equiv> (\<lambda>a b. v_priority b - v_priority a)"

lemma first_max:
  "xs \<noteq> [] \<Longrightarrow> \<exists>pre post. xs = pre @ hd (js_sort by_priority xs) # post
      \<and> (\<forall>v\<in>set pre. v_priority v < v_priority (hd (js_sort by_priority xs)))
      \<and> (\<forall>v\<in>set post. v_priority v \<le> v_priority (hd (js_sort by_priority xs)))"
proof (induction xs)
  case Nil
  then show ?case by simp
next
  case (Cons x xs)
  show ?case
  proof (cases "xs = []")
    case True
    then have "hd (js_sort by_priority (x # xs)) = x" by (simp add: js_sort_Cons js_sort_Nil)
    then show ?thesis using True
      by (intro exI [of _ "[]"]) simp
  next
    case False
    let ?b = "hd (js_sort by_priority xs)"
    from Cons.IH [OF False] obtain pre post where
      xs: "xs = pre @ ?b # post" and
      pre: "\<forall>v\<in>set pre. v_priority v < v_priority ?b" and
      post: "\<forall>v\<in>set post. v_priority v \<le> v_priority ?b" by blast
    have ne: "js_sort by_priority xs \<noteq> []" using False by (rule js_sort_ne)
    show ?thesis
    proof (cases "v_priority ?b \<le> v_priority x")
      case True
      then have h: "hd (js_sort by_priority (x # xs)) = x"
        by (simp add: js_sort_Cons hd_insert_cmp)
      have "\<forall>v\<in>set xs. v_priority v \<le> v_priority x"
      proof
        fix v assume "v \<in> set xs"
        then have "v \<in> set pre \<or> v = ?b \<or> v \<in> set post"
          by (subst (asm) xs) auto
        then show "v_priority v \<le> v_priority x"
          using pre post True by force
      qed
      then show ?thesis unfolding h
        by (intro exI [of _ "[]"] exI [of _ xs]) simp
    next
      case False
      then have h: "hd (js_sort by_priority (x # xs)) = ?b"
        using ne by (simp add: js_sort_Cons hd_insert_cmp)
      have "x # xs = (x # pre) @ ?b # post" using xs by simp
      moreover have "\<forall>v\<in>set (x # pre). v_priority v < v_priority ?b"
        using pre False by auto
      ultimately show ?thesis unfolding h using post by blast
    qed
  qed
qed

lemma selectBestVersion_hd:
  "versions \<noteq> [] \<Longrightarrow> selectBestVersion versions = Some (hd (js_sort by_priority versions))"
  unfolding selectBestVersion_def using js_sort_ne [of versions by_priority]
  by (auto split: list.splits)

lemma selectBestVersion_split:
  assumes "versions \<noteq> []"
  obtains best pre post where
    "selectBestVersion versions = Some best" "versions = pre @ best # post"
    "\<forall>v\<in>set pre. v_priority v < v_priority best"
    "\<forall>v\<in>set post. v_priority v \<le> v_priority best"
  using first_max [OF assms] selectBestVersion_hd [OF assms] by metis

lemma selectBestVersion_max:
  assumes "selectBestVersion versions = Some best"
  shows "best \<in> set versions \<and> (\<forall>v\<in>set versions. v_priority v \<le> v_priority best)"
proof -
  have ne: "versions \<noteq> []" using assms by (auto simp: selectBestVersion_def js_sort_Nil)
  from selectBestVersion_split [OF ne] obtain b pre post where
    *: "selectBestVersion versions = Some b" "versions = pre @ b # post"
    "\<forall>v\<in>set pre. v_priority v < v_priority b"
    "\<forall>v\<in>set post. v_priority v \<le> v_priority b" by metis
  then have "b = best" using assms by simp
  have "\<forall>v\<in>set versions. v_priority v \<le> v_priority b"
  proof
    fix v assume "v \<in> set versions"
    then have "v \<in> set pre \<or> v = b \<or> v \<in> set post" by (subst (asm) *(2)) auto
    then show "v_priority v \<le> v_priority b" using *(3,4) by force
  qed
  moreover have "b \<in> set versions" by (subst *(2)) simp
  ultimately show ?thesis using \<open>b = best\<close> by simp
qed

text \<open>
  Claim C2. For a non-empty list of scored candidates, \<open>selectBestVersion\<close> returns a
  candidate of the list whose priority no other candidate exceeds; among candidates of
  that highest priority it is the first one encountered (everything before it scores
  strictly lower). The choice does not depend on the order of the candidates: for every
  rearrangement of the list the selected candidate has the same priority, and it is the
  very same candidate whenever all others score strictly lower.
\<close>

theorem best_version_selected:
  assumes "versions \<noteq> []"
  shows "\<exists>best pre post.
           selectBestVersion versions = Some best
         \<and> versions = pre @ best # post
         \<and> (\<forall>v\<in>set pre. v_priority v < v_priority best)
         \<and> (\<forall>v\<in>set post. v_priority v \<le> v_priority best)
         \<and> (\<forall>versions'. mset versions' = mset versions \<longrightarrow>
               (\<exists>best'. selectBestVersion versions' = Some best'
                  \<and> v_priority best' = v_priority best
                  \<and> ((\<forall>v\<in>set (pre @ post). v_priority v < v_priority best) \<longrightarrow> best' = best)))"
proof -
  from selectBestVersion_split [OF assms] obtain best pre post where
    *: "selectBestVersion versions = Some best" "versions = pre @ best # post"
    "\<forall>v\<in>set pre. v_priority v < v_priority best"
    "\<forall>v\<in>set post. v_priority v \<le> v_priority best" by metis
  have max: "best \<in> set versions" "\<forall>v\<in>set versions. v_priority v \<le> v_priority best"
    using selectBestVersion_max [OF *(1)] by auto
  have perm: "\<exists>best'. selectBestVersion versions' = Some best'
                  \<and> v_priority best' = v_priority best
                  \<and> ((\<forall>v\<in>set (pre @ post). v_priority v < v_priority best) \<longrightarrow> best' = best)"
    if m: "mset versions' = mset versions" for versions'
  proof -
    have ne': "versions' \<noteq> []" using m assms by auto
    then obtain best' where b': "selectBestVersion versions' = Some best'"
      using selectBestVersion_hd by blast
    have max': "best' \<in> set versions'" "\<forall>v\<in>set versions'. v_priority v \<le> v_priority best'"
      using selectBestVersion_max [OF b'] by auto
    have seteq: "set versions' = set versions" using m by (rule mset_eq_setD)
    have eq: "v_priority best' = v_priority best"
      using max max' seteq by (metis order_antisym)
    have "best' = best" if u: "\<forall>v\<in>set (pre @ post). v_priority v < v_priority best"
    proof (rule ccontr)
      assume "best' \<noteq> best"
      moreover have "best' \<in> set versions" using max'(1) seteq by simp
      ultimately have "best' \<in> set (pre @ post)" by (subst (asm) *(2)) auto
      then have "v_priority best' < v_priority best" using u by blast
      then show False using eq by simp
    qed
    then show ?thesis using b' eq by blast
  qed
  show ?thesis using * perm by blast
qed


(* C4 *)

theorem best_version_selected_witness:
  "example_versions \<noteq> []
   \<and> (\<exists>best pre post.
           selectBestVersion example_versions = Some best
         \<and> example_versions = pre @ best # post
         \<and> (\<forall>v\<in>set pre. v_priority v < v_priority best)
         \<and> (\<forall>v\<in>set post. v_priority v \<le> v_priority best)
         \<and> (\<forall>versions'. mset versions' = mset example_versions \<longrightarrow>
               (\<exists>best'. selectBestVersion versions' = Some best'
                  \<and> v_priority best' = v_priority best
                  \<and> ((\<forall>v\<in>set (pre @ post). v_priority v < v_priority best)
                       \<longrightarrow> best' = best))))"
proof -
  have ne: "example_versions \<noteq> []" by (simp add: example_versions_def)
  from best_version_selected [OF ne] ne show ?thesis by (rule conjI [rotated])
qed

lemma example_versions_selected:
  "map_option v_filePath (selectBestVersion example_versions) = Some ''/nodes/Foo/v2/FooV2.node.ts''"
  by code_simp

section \<open>Quality classification and statistics\<close>

lemma more_than_half:
  "((of_nat n :: rat) / 2 < of_nat d) \<longleftrightarrow> n < 2 * d"
proof -
  have "((of_nat n :: rat) / 2 < of_nat d) \<longleftrightarrow> (of_nat n :: rat) < of_nat (2 * d)"
    by (simp add: field_simps)
  also have "\<dots> \<longleftrightarrow> n < 2 * d" by (simp only: of_nat_less_iff)
  finally show ?thesis .
qed


text \<open>
  Claim C4. The classifier returns \<open>high\<close> exactly when there are at least 5
  parameters, each with a non-empty (truthy) type tag, and strictly more than half of
  them with a description; otherwise \<open>medium\<close> exactly when there are at least 2
  parameters, each with a type tag; otherwise \<open>low\<close>.
\<close>

theorem quality_classification:
  "(determineExtractionQuality ps = High \<longleftrightarrow>
      5 \<le> length ps \<and> (\<forall>p\<in>set ps. truthy (p_type p)) \<and> length ps < 2 * described ps)
   \<and> (determineExtractionQuality ps = Medium \<longleftrightarrow>
      \<not> (5 \<le> length ps \<and> (\<forall>p\<in>set ps. truthy (p_type p)) \<and> length ps < 2 * described ps)
      \<and> 2 \<le> length ps \<and> (\<forall>p\<in>set ps. truthy (p_type p)))
   \<and> (determineExtractionQuality ps = Low \<longleftrightarrow>
      \<not> (5 \<le> length ps \<and> (\<forall>p\<in>set ps. truthy (p_type p)) \<and> length ps < 2 * described ps)
      \<and> \<not> (2 \<le> length ps \<and> (\<forall>p\<in>set ps. truthy (p_type p))))"
  unfolding determineExtractionQuality_def Let_def more_than_half described_def list_all_iff
  by auto

theorem quality_classification_witness:
  "5 \<le> length five_described
   \<and> list_all (\<lambda>p. truthy (p_type p)) five_described
   \<and> length five_described < 2 * described five_described
   \<and> determineExtractionQuality five_described = High
   \<and> determineExtractionQuality (take 3 five_described) = Medium
   \<and> determineExtractionQuality (take 1 five_described) = Low"
proof -
  have h: "5 \<le> length five_described" "\<forall>p\<in>set five_described. truthy (p_type p)"
    "length five_described < 2 * described five_described"
    by (simp_all add: five_described_def example_parameter_def described_def)
  have m: "\<not> 5 \<le> length (take 3 five_described)" "2 \<le> length (take 3 five_described)"
    "\<forall>p\<in>set (take 3 five_described). truthy (p_type p)"
    by (simp_all add: five_described_def example_parameter_def)
  have l: "\<not> 5 \<le> length (take 1 five_described)" "\<not> 2 \<le> length (take 1 five_described)"
    by (simp_all add: five_described_def)
  show ?thesis
    using h m l quality_classification [of five_described]
      quality_classification [of "take 3 five_described"]
      quality_classification [of "take 1 five_described"]
    unfolding list_all_iff by blast
qed



section \<open>The two output documents\<close>

lemma update_fresh: "k \<notin> fst ` set al \<Longrightarrow> AList.update k v al = al @ [(k, v)]"
  by (induction al) auto

lemma impl_of_update: "DAList.impl_of (DAList.update k v al) = AList.update k v (DAList.impl_of al)"
  by (simp add: DAList.update.rep_eq)

lemma impl_of_fold_update:
  "distinct (map fst (DAList.impl_of a @ es)) \<Longrightarrow>
   DAList.impl_of (fold (\<lambda>(k, v). DAList.update k v) es a) = DAList.impl_of a @ es"
proof (induction es arbitrary: a)
  case Nil
  then show ?case by simp
next
  case (Cons e es)
  obtain k v where e: "e = (k, v)" by (cases e)
  have fresh: "k \<notin> fst ` set (DAList.impl_of a)" using Cons.prems e by auto
  have step: "DAList.impl_of (DAList.update k v a) = DAList.impl_of a @ [(k, v)]"
    by (simp add: impl_of_update update_fresh [OF fresh])
  have "distinct (map fst (DAList.impl_of (DAList.update k v a) @ es))"
    using Cons.prems e step by simp
  from Cons.IH [OF this] show ?case using e step by simp
qed

lemma impl_of_fromEntries:
  "distinct (map fst es) \<Longrightarrow> DAList.impl_of (object_fromEntries es) = es"
  unfolding object_fromEntries_def
  using impl_of_fold_update [of DAList.empty es] by (simp add: DAList.empty.rep_eq)

lemma filtered_nodes:
  "DAList.impl_of (object_fromEntries (filter (\<lambda>(_, node). s_extractionQuality node = High
                                    \<or> s_extractionQuality node = Medium) (DAList.impl_of al)))
    = filter (\<lambda>(_, node). s_extractionQuality node = High
                                    \<or> s_extractionQuality node = Medium) (DAList.impl_of al)"
  by (rule impl_of_fromEntries) (simp add: distinct_map_filter)

text \<open>
  Claim C9. When the output directory exists, \<open>saveResults\<close> writes the database
  itself and a second document whose node entries are exactly the entries of the
  database with quality high or medium (hence a subset of them), whose \<open>nodeCount\<close> is
  the number of its own entries, and whose remaining fields are those of the database;
  both are values of the same record type.
\<close>

theorem filtered_projection:
  "\<exists>filtered. saveResults True db = Inr (db, filtered)
     \<and> set (DAList.impl_of (nodes filtered)) =
         {(k, node). (k, node) \<in> set (DAList.impl_of (nodes db))
            \<and> (s_extractionQuality node = High \<or> s_extractionQuality node = Medium)}
     \<and> set (DAList.impl_of (nodes filtered)) \<subseteq> set (DAList.impl_of (nodes db))
     \<and> nodeCount filtered = length (DAList.impl_of (nodes filtered))
     \<and> nodeCount filtered = card (dom (DAList.lookup (nodes filtered)))
     \<and> generatedAt filtered = generatedAt db
     \<and> extractionStats filtered = extractionStats db
     \<and> knownIssues filtered = knownIssues db"
proof -
  have "card (dom (map_of xs)) = length xs" if "distinct (map fst xs)" for xs :: "(string \<times> ExtractedNodeSchema) list"
    using that by (simp add: dom_map_of_conv_image_fst distinct_card [symmetric] del: set_map)
      (metis distinct_card length_map set_map)
  then have "card (dom (DAList.lookup al)) = length (DAList.impl_of al)" for al :: "(string, ExtractedNodeSchema) alist"
    by (simp add: DAList.lookup.rep_eq)
  then show ?thesis
    unfolding saveResults_def Let_def
    by (auto simp: filtered_nodes)
qed

theorem filtered_projection_witness:
  "\<exists>filtered. saveResults True example_database = Inr (example_database, filtered)
     \<and> set (DAList.impl_of (nodes filtered)) =
         {(k, node). (k, node) \<in> set (DAList.impl_of (nodes example_database))
            \<and> (s_extractionQuality node = High \<or> s_extractionQuality node = Medium)}
     \<and> set (DAList.impl_of (nodes filtered)) \<subseteq> set (DAList.impl_of (nodes example_database))
     \<and> nodeCount filtered = length (DAList.impl_of (nodes filtered))
     \<and> nodeCount filtered = card (dom (DAList.lookup (nodes filtered)))
     \<and> generatedAt filtered = generatedAt example_database
     \<and> extractionStats filtered = extractionStats example_database
     \<and> knownIssues filtered = knownIssues example_database"
  by (rule filtered_projection)

end
